theory Spec2Isabelle
  imports Complex_Main "HOL-Library.Multiset"
begin

section \<open>JavaScript values used by the player\<close>

text \<open>
  A JavaScript \<open>number\<close> that carries a measurement (time, volume, rate, rating) is a
  double: a finite value, one of the two infinities, or NaN. Finite values are read as the
  reals they denote. Only comparisons are used on them by the clamping setters, and
  comparisons of doubles are exact; sums (used for a playlist's total duration only) are
  taken in the reals, without rounding. Array positions and counters are integers.
\<close>

datatype number = NaN | NegInfinity | Finite real | PosInfinity

fun num_less :: "number \<Rightarrow> number \<Rightarrow> bool" where
  "num_less NaN _ = False"
| "num_less _ NaN = False"
| "num_less NegInfinity NegInfinity = False"
| "num_less NegInfinity _ = True"
| "num_less (Finite x) (Finite y) = (x < y)"
| "num_less (Finite x) PosInfinity = True"
| "num_less (Finite x) NegInfinity = False"
| "num_less PosInfinity _ = False"

text \<open>\<open>Math.max\<close> and \<open>Math.min\<close> on two arguments: NaN if either is NaN.\<close>

definition Math_max :: "number \<Rightarrow> number \<Rightarrow> number" where
  "Math_max a b = (if a = NaN \<or> b = NaN then NaN else if num_less a b then b else a)"

definition Math_min :: "number \<Rightarrow> number \<Rightarrow> number" where
  "Math_min a b = (if a = NaN \<or> b = NaN then NaN else if num_less b a then b else a)"

fun num_add :: "number \<Rightarrow> number \<Rightarrow> number" where
  "num_add NaN _ = NaN"
| "num_add _ NaN = NaN"
| "num_add NegInfinity PosInfinity = NaN"
| "num_add PosInfinity NegInfinity = NaN"
| "num_add NegInfinity _ = NegInfinity"
| "num_add _ NegInfinity = NegInfinity"
| "num_add PosInfinity _ = PosInfinity"
| "num_add _ PosInfinity = PosInfinity"
| "num_add (Finite x) (Finite y) = Finite (x + y)"

text \<open>
  \<open>xs[i]\<close>: the element at position \<open>i\<close>, or \<open>undefined\<close> outside the array. Both
  \<open>undefined\<close> and \<open>null\<close> are \<open>None\<close>.
\<close>

definition at_index :: "'a list \<Rightarrow> int \<Rightarrow> 'a option" where
  "at_index xs i = (if 0 \<le> i \<and> i < int (length xs) then Some (xs ! nat i) else None)"

text \<open>\<open>xs.filter((_, i) => i !== index)\<close>\<close>

definition filter_index :: "int \<Rightarrow> 'a list \<Rightarrow> 'a list" where
  "filter_index index xs = map snd (filter (\<lambda>(i, x). int i \<noteq> index) (enumerate 0 xs))"

text \<open>
  The position at which \<open>Array.prototype.splice(start, ...)\<close> starts on an array of
  length \<open>len\<close>: a negative \<open>start\<close> counts from the end, and the result is clamped to
  \<open>[0, len]\<close>.
\<close>

definition splice_start :: "int \<Rightarrow> nat \<Rightarrow> nat" where
  "splice_start start len =
     (if start < 0 then nat (max (int len + start) 0) else min (nat start) len)"

text \<open>\<open>{...old, ...updates}\<close> on one field: a field present in the updates wins.\<close>

definition spread :: "'a \<Rightarrow> 'a option \<Rightarrow> 'a" where
  "spread old new = (case new of None \<Rightarrow> old | Some v \<Rightarrow> v)"

section \<open>Data model (types)\<close>

record track_metadata =
  md_title :: string
  md_artist :: string
  md_album :: "string option"
  md_year :: "int option"
  md_genre :: "string option"
  md_duration :: number
  md_thumbnail :: "string option"
  md_uploader :: "string option"
  md_description :: "string option"

record audio_track =
  t_id :: string
  t_title :: string
  t_artist :: string
  t_duration :: number
  t_url :: string
  t_thumbnail :: "string option"
  t_metadata :: track_metadata
  t_tags :: "string list option"
  t_rating :: "number option"
  t_playCount :: "int option"
  t_dateAdded :: "string option"

text \<open>\<open>Partial<AudioTrack>\<close>: each field absent (\<open>None\<close>) or present.\<close>

record track_updates =
  tu_id :: "string option"
  tu_title :: "string option"
  tu_artist :: "string option"
  tu_duration :: "number option"
  tu_url :: "string option"
  tu_thumbnail :: "string option option"
  tu_metadata :: "track_metadata option"
  tu_tags :: "string list option option"
  tu_rating :: "number option option"
  tu_playCount :: "int option option"
  tu_dateAdded :: "string option option"

definition no_track_updates :: track_updates where
  "no_track_updates =
     \<lparr>tu_id = None, tu_title = None, tu_artist = None, tu_duration = None, tu_url = None,
      tu_thumbnail = None, tu_metadata = None, tu_tags = None, tu_rating = None,
      tu_playCount = None, tu_dateAdded = None\<rparr>"

definition merge_track :: "audio_track \<Rightarrow> track_updates \<Rightarrow> audio_track" where
  "merge_track t u =
     \<lparr>t_id = spread (t_id t) (tu_id u),
      t_title = spread (t_title t) (tu_title u),
      t_artist = spread (t_artist t) (tu_artist u),
      t_duration = spread (t_duration t) (tu_duration u),
      t_url = spread (t_url t) (tu_url u),
      t_thumbnail = spread (t_thumbnail t) (tu_thumbnail u),
      t_metadata = spread (t_metadata t) (tu_metadata u),
      t_tags = spread (t_tags t) (tu_tags u),
      t_rating = spread (t_rating t) (tu_rating u),
      t_playCount = spread (t_playCount t) (tu_playCount u),
      t_dateAdded = spread (t_dateAdded t) (tu_dateAdded u)\<rparr>"

text \<open>
  An entry of a playlist's \<open>tracks\<close> array: a track id, or \<open>undefined\<close> (\<open>None\<close>),
  which \<open>reorderTracks\<close> can store there.
\<close>

type_synonym track_ref = "string option"

record playlist =
  p_id :: string
  p_name :: string
  p_description :: "string option"
  p_tracks :: "track_ref list"
  p_createdAt :: string
  p_updatedAt :: string
  p_isDefault :: "bool option"

text \<open>\<open>Omit<Playlist, "id" | "createdAt" | "updatedAt">\<close>\<close>

record playlist_data =
  pd_name :: string
  pd_description :: "string option"
  pd_tracks :: "track_ref list"
  pd_isDefault :: "bool option"

text \<open>\<open>Partial<Playlist>\<close>\<close>

record playlist_updates =
  pu_id :: "string option"
  pu_name :: "string option"
  pu_description :: "string option option"
  pu_tracks :: "track_ref list option"
  pu_createdAt :: "string option"
  pu_updatedAt :: "string option"
  pu_isDefault :: "bool option option"

definition no_playlist_updates :: playlist_updates where
  "no_playlist_updates =
     \<lparr>pu_id = None, pu_name = None, pu_description = None, pu_tracks = None,
      pu_createdAt = None, pu_updatedAt = None, pu_isDefault = None\<rparr>"

datatype repeat_mode = RepeatNone | RepeatOne | RepeatAll

datatype sort_key = SortTitle | SortArtist | SortDateAdded | SortPlayCount | SortRating

datatype sort_order = Asc | Desc

record filter_options =
  fo_search :: string
  fo_tags :: "string list"
  fo_genre :: "string list"
  fo_year_min :: int
  fo_year_max :: int
  fo_rating_min :: number
  fo_rating_max :: number
  fo_sortBy :: sort_key
  fo_sortOrder :: sort_order

text \<open>
  \<open>Partial<FilterOptions>\<close>; \<open>year\<close> and \<open>rating\<close> are objects, replaced whole by the
  shallow merge.
\<close>

record filter_updates =
  fu_search :: "string option"
  fu_tags :: "string list option"
  fu_genre :: "string list option"
  fu_year :: "(int \<times> int) option"
  fu_rating :: "(number \<times> number) option"
  fu_sortBy :: "sort_key option"
  fu_sortOrder :: "sort_order option"

text \<open>
  \<open>defaultFilterOptions\<close>; the upper year bound is \<open>new Date().getFullYear()\<close> at load
  time, a parameter here.
\<close>

definition defaultFilterOptions :: "int \<Rightarrow> filter_options" where
  "defaultFilterOptions thisYear =
     \<lparr>fo_search = [], fo_tags = [], fo_genre = [], fo_year_min = 1900,
      fo_year_max = thisYear, fo_rating_min = Finite 0, fo_rating_max = Finite 5,
      fo_sortBy = SortTitle, fo_sortOrder = Asc\<rparr>"

record audio_store =
  currentTrack :: "audio_track option"
  isPlaying :: bool
  isPaused :: bool
  currentTime :: number
  duration :: number
  volume :: number
  playbackRate :: number
  repeatMode :: repeat_mode
  shuffleMode :: bool
  queue :: "audio_track list"
  currentIndex :: int
  playlists :: "playlist list"
  tracks :: "audio_track list"
  filterOptions :: filter_options

definition initial_store :: "int \<Rightarrow> audio_store" where
  "initial_store thisYear =
     \<lparr>currentTrack = None, isPlaying = False, isPaused = False, currentTime = Finite 0,
      duration = Finite 0, volume = Finite 1, playbackRate = Finite 1,
      repeatMode = RepeatNone, shuffleMode = False, queue = [], currentIndex = 0,
      playlists = [], tracks = [], filterOptions = defaultFilterOptions thisYear\<rparr>"

section \<open>Store actions (stores/audio-store.ts)\<close>

text \<open>
  Every action takes the store and returns the store after its \<open>set\<close>. What an action
  reads from the environment is an argument: \<open>rnd\<close> is the value of \<open>Math.random()\<close>,
  \<open>now\<close> of \<open>new Date().toISOString()\<close>, \<open>newId\<close> of \<open>generateId()\<close>.
\<close>

definition setCurrentTrack :: "audio_track \<Rightarrow> audio_store \<Rightarrow> audio_store" where
  "setCurrentTrack track s = s\<lparr>currentTrack := Some track\<rparr>"

definition togglePlayPause :: "audio_store \<Rightarrow> audio_store" where
  "togglePlayPause s = s\<lparr>isPlaying := \<not> isPlaying s, isPaused := isPlaying s\<rparr>"

definition play :: "audio_store \<Rightarrow> audio_store" where
  "play s = s\<lparr>isPlaying := True, isPaused := False\<rparr>"

definition pause :: "audio_store \<Rightarrow> audio_store" where
  "pause s = s\<lparr>isPlaying := False, isPaused := True\<rparr>"

definition stop :: "audio_store \<Rightarrow> audio_store" where
  "stop s = s\<lparr>isPlaying := False, isPaused := False, currentTime := Finite 0\<rparr>"

definition seek :: "number \<Rightarrow> audio_store \<Rightarrow> audio_store" where
  "seek time s = s\<lparr>currentTime := time\<rparr>"

definition setVolume :: "number \<Rightarrow> audio_store \<Rightarrow> audio_store" where
  "setVolume v s = s\<lparr>volume := Math_min (Math_max v (Finite 0)) (Finite 1)\<rparr>"

definition setPlaybackRate :: "number \<Rightarrow> audio_store \<Rightarrow> audio_store" where
  "setPlaybackRate rate s =
     s\<lparr>playbackRate := Math_min (Math_max rate (Finite (1/4))) (Finite 4)\<rparr>"

definition setRepeatMode :: "repeat_mode \<Rightarrow> audio_store \<Rightarrow> audio_store" where
  "setRepeatMode mode s = s\<lparr>repeatMode := mode\<rparr>"

definition setShuffleMode :: "bool \<Rightarrow> audio_store \<Rightarrow> audio_store" where
  "setShuffleMode enabled s = s\<lparr>shuffleMode := enabled\<rparr>"

definition nextTrack :: "real \<Rightarrow> audio_store \<Rightarrow> audio_store" where
  "nextTrack rnd s =
     (if length (queue s) = 0 then s
      else
        let nextIndex = currentIndex s + 1 in
        if shuffleMode s then
          (let nextIndex = \<lfloor>rnd * real (length (queue s))\<rfloor> in
           s\<lparr>currentIndex := nextIndex, currentTrack := at_index (queue s) nextIndex,
             currentTime := Finite 0\<rparr>)
        else if nextIndex \<ge> int (length (queue s)) then
          (if repeatMode s = RepeatAll then
             s\<lparr>currentIndex := 0, currentTrack := at_index (queue s) 0,
               currentTime := Finite 0\<rparr>
           else s)
        else
          s\<lparr>currentIndex := nextIndex, currentTrack := at_index (queue s) nextIndex,
            currentTime := Finite 0\<rparr>)"

definition previousTrack :: "real \<Rightarrow> audio_store \<Rightarrow> audio_store" where
  "previousTrack rnd s =
     (if length (queue s) = 0 then s
      else
        let prevIndex = currentIndex s - 1 in
        if shuffleMode s then
          (let prevIndex = \<lfloor>rnd * real (length (queue s))\<rfloor> in
           s\<lparr>currentIndex := prevIndex, currentTrack := at_index (queue s) prevIndex,
             currentTime := Finite 0\<rparr>)
        else if prevIndex < 0 then
          (if repeatMode s = RepeatAll then
             (let prevIndex = int (length (queue s)) - 1 in
              s\<lparr>currentIndex := prevIndex, currentTrack := at_index (queue s) prevIndex,
                currentTime := Finite 0\<rparr>)
           else s)
        else
          s\<lparr>currentIndex := prevIndex, currentTrack := at_index (queue s) prevIndex,
            currentTime := Finite 0\<rparr>)"

definition addToQueue :: "audio_track \<Rightarrow> audio_store \<Rightarrow> audio_store" where
  "addToQueue track s = s\<lparr>queue := queue s @ [track]\<rparr>"

definition removeFromQueue :: "int \<Rightarrow> audio_store \<Rightarrow> audio_store" where
  "removeFromQueue index s =
     (let newQueue = filter_index index (queue s);
          newIndex = (if index < currentIndex s then currentIndex s - 1 else currentIndex s)
      in s\<lparr>queue := newQueue, currentIndex := newIndex,
           currentTrack := at_index newQueue newIndex\<rparr>)"

definition clearQueue :: "audio_store \<Rightarrow> audio_store" where
  "clearQueue s =
     s\<lparr>queue := [], currentIndex := 0, currentTrack := None, isPlaying := False,
       isPaused := False\<rparr>"

definition setQueue :: "audio_track list \<Rightarrow> audio_store \<Rightarrow> audio_store" where
  "setQueue ts s = s\<lparr>queue := ts, currentIndex := 0, currentTrack := at_index ts 0\<rparr>"

definition setCurrentIndex :: "int \<Rightarrow> audio_store \<Rightarrow> audio_store" where
  "setCurrentIndex index s =
     s\<lparr>currentIndex := index, currentTrack := at_index (queue s) index,
       currentTime := Finite 0\<rparr>"

definition addPlaylist ::
  "string \<Rightarrow> string \<Rightarrow> string \<Rightarrow> playlist_data \<Rightarrow> audio_store \<Rightarrow> audio_store" where
  "addPlaylist newId now1 now2 playlistData s =
     (let pl = \<lparr>p_id = newId, p_name = pd_name playlistData,
                 p_description = pd_description playlistData,
                 p_tracks = pd_tracks playlistData, p_createdAt = now1, p_updatedAt = now2,
                 p_isDefault = pd_isDefault playlistData\<rparr>
      in s\<lparr>playlists := playlists s @ [pl]\<rparr>)"

definition merge_playlist :: "playlist \<Rightarrow> playlist_updates \<Rightarrow> string \<Rightarrow> playlist" where
  "merge_playlist p u now =
     \<lparr>p_id = spread (p_id p) (pu_id u),
      p_name = spread (p_name p) (pu_name u),
      p_description = spread (p_description p) (pu_description u),
      p_tracks = spread (p_tracks p) (pu_tracks u),
      p_createdAt = spread (p_createdAt p) (pu_createdAt u),
      p_updatedAt = now,
      p_isDefault = spread (p_isDefault p) (pu_isDefault u)\<rparr>"

definition updatePlaylist ::
  "string \<Rightarrow> playlist_updates \<Rightarrow> string \<Rightarrow> audio_store \<Rightarrow> audio_store" where
  "updatePlaylist pid updates now s =
     s\<lparr>playlists :=
         map (\<lambda>p. if p_id p = pid then merge_playlist p updates now else p) (playlists s)\<rparr>"

definition deletePlaylist :: "string \<Rightarrow> audio_store \<Rightarrow> audio_store" where
  "deletePlaylist pid s = s\<lparr>playlists := filter (\<lambda>p. p_id p \<noteq> pid) (playlists s)\<rparr>"

definition addTrackToPlaylist ::
  "string \<Rightarrow> string \<Rightarrow> string \<Rightarrow> audio_store \<Rightarrow> audio_store" where
  "addTrackToPlaylist playlistId trackId now s =
     s\<lparr>playlists :=
         map (\<lambda>p. if p_id p = playlistId
                  then p\<lparr>p_tracks := (if Some trackId \<in> set (p_tracks p) then p_tracks p
                                        else p_tracks p @ [Some trackId]),
                         p_updatedAt := now\<rparr>
                  else p)
             (playlists s)\<rparr>"

definition removeTrackFromPlaylist ::
  "string \<Rightarrow> string \<Rightarrow> string \<Rightarrow> audio_store \<Rightarrow> audio_store" where
  "removeTrackFromPlaylist playlistId trackId now s =
     s\<lparr>playlists :=
         map (\<lambda>p. if p_id p = playlistId
                  then p\<lparr>p_tracks := filter (\<lambda>i. i \<noteq> Some trackId) (p_tracks p),
                         p_updatedAt := now\<rparr>
                  else p)
             (playlists s)\<rparr>"

definition setTracks :: "audio_track list \<Rightarrow> audio_store \<Rightarrow> audio_store" where
  "setTracks ts s = s\<lparr>tracks := ts\<rparr>"

definition addTrack :: "audio_track \<Rightarrow> audio_store \<Rightarrow> audio_store" where
  "addTrack track s = s\<lparr>tracks := tracks s @ [track]\<rparr>"

definition updateTrack :: "string \<Rightarrow> track_updates \<Rightarrow> audio_store \<Rightarrow> audio_store" where
  "updateTrack tid updates s =
     s\<lparr>tracks := map (\<lambda>t. if t_id t = tid then merge_track t updates else t) (tracks s)\<rparr>"

definition deleteTrack :: "string \<Rightarrow> audio_store \<Rightarrow> audio_store" where
  "deleteTrack tid s =
     s\<lparr>tracks := filter (\<lambda>t. t_id t \<noteq> tid) (tracks s),
       queue := filter (\<lambda>t. t_id t \<noteq> tid) (queue s),
       currentTrack :=
         (if map_option t_id (currentTrack s) = Some tid then None else currentTrack s)\<rparr>"

definition merge_filter :: "filter_options \<Rightarrow> filter_updates \<Rightarrow> filter_options" where
  "merge_filter f u =
     \<lparr>fo_search = spread (fo_search f) (fu_search u),
      fo_tags = spread (fo_tags f) (fu_tags u),
      fo_genre = spread (fo_genre f) (fu_genre u),
      fo_year_min = fst (spread (fo_year_min f, fo_year_max f) (fu_year u)),
      fo_year_max = snd (spread (fo_year_min f, fo_year_max f) (fu_year u)),
      fo_rating_min = fst (spread (fo_rating_min f, fo_rating_max f) (fu_rating u)),
      fo_rating_max = snd (spread (fo_rating_min f, fo_rating_max f) (fu_rating u)),
      fo_sortBy = spread (fo_sortBy f) (fu_sortBy u),
      fo_sortOrder = spread (fo_sortOrder f) (fu_sortOrder u)\<rparr>"

definition setFilterOptions :: "filter_updates \<Rightarrow> audio_store \<Rightarrow> audio_store" where
  "setFilterOptions options s = s\<lparr>filterOptions := merge_filter (filterOptions s) options\<rparr>"

definition resetFilterOptions :: "int \<Rightarrow> audio_store \<Rightarrow> audio_store" where
  "resetFilterOptions thisYear s = s\<lparr>filterOptions := defaultFilterOptions thisYear\<rparr>"

definition getPlaylistTracks :: "string \<Rightarrow> audio_store \<Rightarrow> audio_track list" where
  "getPlaylistTracks playlistId s =
     (case find (\<lambda>p. p_id p = playlistId) (playlists s) of
        None \<Rightarrow> []
      | Some pl \<Rightarrow> filter (\<lambda>t. Some (t_id t) \<in> set (p_tracks pl)) (tracks s))"

text \<open>
  \<open>partialize\<close>: the part of the store that the \<open>persist\<close> middleware writes to
  storage.
\<close>

record persisted =
  ps_volume :: number
  ps_repeatMode :: repeat_mode
  ps_shuffleMode :: bool
  ps_playlists :: "playlist list"
  ps_tracks :: "audio_track list"
  ps_filterOptions :: filter_options

definition partialize :: "audio_store \<Rightarrow> persisted" where
  "partialize s =
     \<lparr>ps_volume = volume s, ps_repeatMode = repeatMode s, ps_shuffleMode = shuffleMode s,
      ps_playlists = playlists s, ps_tracks = tracks s,
      ps_filterOptions = filterOptions s\<rparr>"

text \<open>The actions of the store that change it, as one type, and their application.\<close>

datatype action =
    SetCurrentTrack audio_track
  | TogglePlayPause
  | Play
  | Pause
  | Stop
  | Seek number
  | SetVolume number
  | SetPlaybackRate number
  | SetRepeatMode repeat_mode
  | SetShuffleMode bool
  | NextTrack real
  | PreviousTrack real
  | AddToQueue audio_track
  | RemoveFromQueue int
  | ClearQueue
  | SetQueue "audio_track list"
  | SetCurrentIndex int
  | AddPlaylist string string string playlist_data
  | UpdatePlaylist string playlist_updates string
  | DeletePlaylist string
  | AddTrackToPlaylist string string string
  | RemoveTrackFromPlaylist string string string
  | SetTracks "audio_track list"
  | AddTrack audio_track
  | UpdateTrack string track_updates
  | DeleteTrack string
  | SetFilterOptions filter_updates
  | ResetFilterOptions int

fun apply_action :: "action \<Rightarrow> audio_store \<Rightarrow> audio_store" where
  "apply_action (SetCurrentTrack t) s = setCurrentTrack t s"
| "apply_action TogglePlayPause s = togglePlayPause s"
| "apply_action Play s = play s"
| "apply_action Pause s = pause s"
| "apply_action Stop s = stop s"
| "apply_action (Seek t) s = seek t s"
| "apply_action (SetVolume v) s = setVolume v s"
| "apply_action (SetPlaybackRate r) s = setPlaybackRate r s"
| "apply_action (SetRepeatMode m) s = setRepeatMode m s"
| "apply_action (SetShuffleMode b) s = setShuffleMode b s"
| "apply_action (NextTrack rnd) s = nextTrack rnd s"
| "apply_action (PreviousTrack rnd) s = previousTrack rnd s"
| "apply_action (AddToQueue t) s = addToQueue t s"
| "apply_action (RemoveFromQueue i) s = removeFromQueue i s"
| "apply_action ClearQueue s = clearQueue s"
| "apply_action (SetQueue ts) s = setQueue ts s"
| "apply_action (SetCurrentIndex i) s = setCurrentIndex i s"
| "apply_action (AddPlaylist newId now1 now2 d) s = addPlaylist newId now1 now2 d s"
| "apply_action (UpdatePlaylist pid u now) s = updatePlaylist pid u now s"
| "apply_action (DeletePlaylist pid) s = deletePlaylist pid s"
| "apply_action (AddTrackToPlaylist pid tid now) s = addTrackToPlaylist pid tid now s"
| "apply_action (RemoveTrackFromPlaylist pid tid now) s =
     removeTrackFromPlaylist pid tid now s"
| "apply_action (SetTracks ts) s = setTracks ts s"
| "apply_action (AddTrack t) s = addTrack t s"
| "apply_action (UpdateTrack tid u) s = updateTrack tid u s"
| "apply_action (DeleteTrack tid) s = deleteTrack tid s"
| "apply_action (SetFilterOptions u) s = setFilterOptions u s"
| "apply_action (ResetFilterOptions y) s = resetFilterOptions y s"

section \<open>The track-change effect (hooks/use-audio-player.ts)\<close>

text \<open>
  The effect that the player hook runs when \<open>currentTrack\<close> has changed: it loads the
  track into the audio element (not part of the store; the hook's first effect has created
  it) and writes the play count. The count it writes is computed from the
  \<open>currentTrack\<close> object: \<open>(currentTrack.playCount || 0) + 1\<close>.
\<close>

definition trackChangeEffect :: "audio_store \<Rightarrow> audio_store" where
  "trackChangeEffect s =
     (case currentTrack s of
        None \<Rightarrow> s
      | Some ct \<Rightarrow>
          updateTrack (t_id ct)
            (no_track_updates
               \<lparr>tu_playCount :=
                  Some (Some ((case t_playCount ct of None \<Rightarrow> 0 | Some c \<Rightarrow> c) + 1))\<rparr>)
            s)"

text \<open>
  An assignment of \<open>currentTrack\<close> as the hook sees it: the store action, then the
  effect. The effect is taken to run after every assignment.
\<close>

definition assignCurrentTrack :: "audio_track \<Rightarrow> audio_store \<Rightarrow> audio_store" where
  "assignCurrentTrack track s = trackChangeEffect (setCurrentTrack track s)"

text \<open>The play count that the track collection records for an id.\<close>

definition storedPlayCount :: "string \<Rightarrow> audio_store \<Rightarrow> int option list" where
  "storedPlayCount tid s = map t_playCount (filter (\<lambda>t. t_id t = tid) (tracks s))"

section \<open>Playlist operations (the playlist hook)\<close>

definition createPlaylist ::
  "string \<Rightarrow> string \<Rightarrow> string \<Rightarrow> string \<Rightarrow> string option \<Rightarrow> string list \<Rightarrow>
   audio_store \<Rightarrow> audio_store" where
  "createPlaylist newId now1 now2 name description trackIds s =
     addPlaylist newId now1 now2
       \<lparr>pd_name = name, pd_description = description, pd_tracks = map Some trackIds,
        pd_isDefault = Some False\<rparr> s"

definition getPlaylistById :: "string \<Rightarrow> audio_store \<Rightarrow> playlist option" where
  "getPlaylistById pid s = find (\<lambda>p. p_id p = pid) (playlists s)"

text \<open>
  \<open>reorderTracks\<close>: a copy of the playlist's array, \<open>splice(fromIndex, 1)\<close> to take one
  element out (\<open>movedTrack\<close> is \<open>undefined\<close> when nothing was removed), then
  \<open>splice(toIndex, 0, movedTrack)\<close> to put it in. No index is checked.
\<close>

definition reorderTracks ::
  "string \<Rightarrow> int \<Rightarrow> int \<Rightarrow> string \<Rightarrow> audio_store \<Rightarrow> audio_store" where
  "reorderTracks playlistId fromIndex toIndex now s =
     (case find (\<lambda>p. p_id p = playlistId) (playlists s) of
        None \<Rightarrow> s
      | Some pl \<Rightarrow>
          let newTracks = p_tracks pl;
              a = splice_start fromIndex (length newTracks);
              movedTrack = (case take 1 (drop a newTracks) of [] \<Rightarrow> None | x # _ \<Rightarrow> x);
              newTracks1 = take a newTracks @ drop (a + 1) newTracks;
              b = splice_start toIndex (length newTracks1);
              newTracks2 = take b newTracks1 @ [movedTrack] @ drop b newTracks1
          in updatePlaylist playlistId (no_playlist_updates\<lparr>pu_tracks := Some newTracks2\<rparr>)
               now s)"

record exported_track =
  x_title :: string
  x_artist :: string
  x_duration :: number
  x_url :: string

record import_data =
  d_name :: string
  d_description :: "string option"
  d_tracks :: "exported_track list"

record export_metadata =
  exportedAt :: string
  totalTracks :: nat
  totalDuration :: number

record export_snapshot =
  snap_playlist :: import_data
  snap_metadata :: export_metadata

definition exportPlaylist :: "string \<Rightarrow> string \<Rightarrow> audio_store \<Rightarrow> export_snapshot option" where
  "exportPlaylist playlistId now s =
     (case getPlaylistById playlistId s of
        None \<Rightarrow> None
      | Some pl \<Rightarrow>
          let playlistTracks = getPlaylistTracks playlistId s in
          Some \<lparr>snap_playlist =
                  \<lparr>d_name = p_name pl, d_description = p_description pl,
                   d_tracks =
                     map (\<lambda>t. \<lparr>x_title = t_title t, x_artist = t_artist t,
                                x_duration = t_duration t, x_url = t_url t\<rparr>)
                       playlistTracks\<rparr>,
                snap_metadata =
                  \<lparr>exportedAt = now, totalTracks = length playlistTracks,
                   totalDuration =
                     foldl (\<lambda>sum t. num_add sum (t_duration t)) (Finite 0) playlistTracks\<rparr>\<rparr>)"

text \<open>
  \<open>importPlaylist\<close>: \<open>generateId k\<close> and \<open>clock k\<close> are the results of the \<open>k\<close>-th call
  of \<open>generateId()\<close> and of \<open>new Date().toISOString()\<close>. The imported tracks are built,
  the loop that should add them to the store has an empty body, and the playlist is
  created from their ids.
\<close>

definition importPlaylist ::
  "(nat \<Rightarrow> string) \<Rightarrow> (nat \<Rightarrow> string) \<Rightarrow> import_data \<Rightarrow> audio_store \<Rightarrow> audio_store" where
  "importPlaylist generateId clock playlistData s =
     (let n = length (d_tracks playlistData);
          importedTracks =
            map (\<lambda>(k, trackData).
                   \<lparr>t_id = generateId k, t_title = x_title trackData,
                    t_artist = x_artist trackData, t_duration = x_duration trackData,
                    t_url = x_url trackData, t_thumbnail = None,
                    t_metadata =
                      \<lparr>md_title = x_title trackData, md_artist = x_artist trackData,
                       md_album = None, md_year = None, md_genre = None,
                       md_duration = x_duration trackData, md_thumbnail = None,
                       md_uploader = None, md_description = None\<rparr>,
                    t_tags = Some [], t_rating = Some (Finite 0), t_playCount = Some 0,
                    t_dateAdded = Some (clock k)\<rparr>)
              (enumerate 0 (d_tracks playlistData));
          trackIds = map t_id importedTracks
      in createPlaylist (generateId n) (clock n) (clock (n + 1))
           (d_name playlistData) (d_description playlistData) trackIds s)"

section \<open>Notions used to state the properties\<close>

text \<open>
  The positions that successive \<open>nextTrack\<close> calls reach from \<open>s\<close>: the \<open>k\<close>-th entry
  is \<open>currentIndex\<close> after the first \<open>k\<close> calls; \<open>rnds\<close> holds the value of
  \<open>Math.random()\<close> for each call.
\<close>

definition nextTrack_visits :: "real list \<Rightarrow> audio_store \<Rightarrow> int list" where
  "nextTrack_visits rnds s =
     map (\<lambda>k. currentIndex (fold nextTrack (take k rnds) s)) [1..<Suc (length rnds)]"

text \<open>A list without its element at position \<open>i\<close>.\<close>

definition remove_at :: "nat \<Rightarrow> 'a list \<Rightarrow> 'a list" where
  "remove_at i xs = take i xs @ drop (Suc i) xs"

subsection \<open>Concrete stores\<close>

definition demo_track :: "string \<Rightarrow> string \<Rightarrow> string \<Rightarrow> audio_track" where
  "demo_track i title artist =
     \<lparr>t_id = i, t_title = title, t_artist = artist, t_duration = Finite 180,
      t_url = ''/audio/'' @ i, t_thumbnail = None,
      t_metadata =
        \<lparr>md_title = title, md_artist = artist, md_album = None, md_year = None,
         md_genre = None, md_duration = Finite 180, md_thumbnail = None,
         md_uploader = None, md_description = None\<rparr>,
      t_tags = Some [], t_rating = Some (Finite 0), t_playCount = Some 0,
      t_dateAdded = None\<rparr>"

definition demo_queue :: "audio_track list" where
  "demo_queue = [demo_track ''a'' ''Alpha'' ''Ann'', demo_track ''b'' ''Beta'' ''Bob'',
                 demo_track ''c'' ''Gamma'' ''Cy'']"

definition demo_player :: "int \<Rightarrow> repeat_mode \<Rightarrow> audio_store" where
  "demo_player i mode =
     (initial_store 2024)\<lparr>queue := demo_queue, currentIndex := i, repeatMode := mode,
        currentTrack := at_index demo_queue i\<rparr>"

definition demo_single :: audio_store where
  "demo_single =
     (initial_store 2024)\<lparr>queue := [demo_track ''a'' ''Alpha'' ''Ann''], currentIndex := 0,
        repeatMode := RepeatAll, currentTrack := Some (demo_track ''a'' ''Alpha'' ''Ann'')\<rparr>"

definition demo_playlist :: playlist where
  "demo_playlist =
     \<lparr>p_id = ''pl'', p_name = ''Mix'', p_description = None,
      p_tracks = [Some ''a'', Some ''b'', Some ''c''],
      p_createdAt = ''2024-01-01T00:00:00.000Z'', p_updatedAt = ''2024-01-01T00:00:00.000Z'',
      p_isDefault = Some False\<rparr>"

definition demo_library :: audio_store where
  "demo_library = (initial_store 2024)\<lparr>tracks := demo_queue, playlists := [demo_playlist]\<rparr>"

definition demo_generateId :: "nat \<Rightarrow> string" where
  "demo_generateId k = ''id'' @ replicate (Suc k) (CHR ''x'')"

definition demo_clock :: "nat \<Rightarrow> string" where
  "demo_clock k = ''2024-03-03T00:00:00.000Z''"

section \<open>Queue traversal\<close>

lemma nextTrack_keeps:
  "queue (nextTrack rnd s) = queue s"
  "repeatMode (nextTrack rnd s) = repeatMode s"
  "shuffleMode (nextTrack rnd s) = shuffleMode s"
  by (simp_all add: nextTrack_def Let_def)

lemma nextTrack_index_mod:
  assumes "\<not> shuffleMode s" "repeatMode s = RepeatAll" "queue s \<noteq> []"
    "0 \<le> currentIndex s" "currentIndex s < int (length (queue s))"
  shows "currentIndex (nextTrack rnd s) = (currentIndex s + 1) mod int (length (queue s))"
proof (cases "currentIndex s + 1 < int (length (queue s))")
  case True
  with assms show ?thesis by (simp add: nextTrack_def Let_def)
next
  case False
  with assms have "currentIndex s + 1 = int (length (queue s))" by simp
  with assms show ?thesis by (simp add: nextTrack_def Let_def)
qed

lemma fold_nextTrack_keeps:
  "queue (fold nextTrack rnds s) = queue s \<and>
   repeatMode (fold nextTrack rnds s) = repeatMode s \<and>
   shuffleMode (fold nextTrack rnds s) = shuffleMode s"
  by (induction rnds arbitrary: s) (simp_all add: nextTrack_keeps)

lemma fold_nextTrack_index:
  assumes "\<not> shuffleMode s" "repeatMode s = RepeatAll" "queue s \<noteq> []"
    "0 \<le> currentIndex s" "currentIndex s < int (length (queue s))"
  shows "currentIndex (fold nextTrack rnds s) =
         (currentIndex s + int (length rnds)) mod int (length (queue s))"
  using assms
proof (induction rnds arbitrary: s)
  case Nil
  then show ?case by simp
next
  case (Cons r rnds)
  let ?s = "nextTrack r s"
  have i: "currentIndex ?s = (currentIndex s + 1) mod int (length (queue s))"
    using Cons.prems by (rule nextTrack_index_mod)
  have n: "0 < int (length (queue s))" using Cons.prems by simp
  have "currentIndex (fold nextTrack rnds ?s) =
        (currentIndex ?s + int (length rnds)) mod int (length (queue ?s))"
    using Cons.prems i n by (intro Cons.IH) (simp_all add: nextTrack_keeps)
  also have "\<dots> = ((currentIndex s + 1) mod int (length (queue s)) + int (length rnds))
                     mod int (length (queue s))"
    by (simp only: i nextTrack_keeps)
  also have "\<dots> = (currentIndex s + 1 + int (length rnds)) mod int (length (queue s))"
    by (rule mod_add_left_eq)
  finally show ?case by (simp add: algebra_simps)
qed

lemma cycle_distinct:
  assumes "0 < n" "0 \<le> c"
  shows "distinct (map (\<lambda>k. (c + int k) mod int n) [1..<Suc n])"
proof -
  have "inj_on (\<lambda>k. (c + int k) mod int n) (set [1..<Suc n])"
  proof (rule inj_onI)
    fix x y assume x: "x \<in> set [1..<Suc n]" and y: "y \<in> set [1..<Suc n]"
      and e: "(c + int x) mod int n = (c + int y) mod int n"
    from e have "int n dvd (c + int x) - (c + int y)" by (simp add: mod_eq_dvd_iff)
    then have d: "int n dvd int x - int y" by simp
    have "\<bar>int x - int y\<bar> < int n" using x y by auto
    with d have "int x - int y = 0" using zdvd_not_zless[of "\<bar>int x - int y\<bar>" "int n"] by fastforce
    then show "x = y" by simp
  qed
  then show ?thesis by (simp only: distinct_map distinct_upt simp_thms)
qed

lemma cycle_set:
  assumes "0 < n" "0 \<le> c"
  shows "set (map (\<lambda>k. (c + int k) mod int n) [1..<Suc n]) = {0..<int n}"
proof -
  let ?xs = "map (\<lambda>k. (c + int k) mod int n) [1..<Suc n]"
  have sub: "set ?xs \<subseteq> {0..<int n}" using assms by auto
  have "card (set ?xs) = length ?xs" using cycle_distinct[OF assms] by (rule distinct_card)
  then have "card (set ?xs) = card {0..<int n}" by simp
  with sub show ?thesis by (simp add: card_subset_eq)
qed

lemma nextTrack_visits_eq:
  assumes "\<not> shuffleMode s" "repeatMode s = RepeatAll" "queue s \<noteq> []"
    "0 \<le> currentIndex s" "currentIndex s < int (length (queue s))"
  shows "nextTrack_visits rnds s = map (\<lambda>k. (currentIndex s + int k) mod int (length (queue s))) [1..<Suc (length rnds)]"
  unfolding nextTrack_visits_def
proof (rule map_cong[OF refl])
  fix k assume "k \<in> set [1..<Suc (length rnds)]"
  then have "length (take k rnds) = k" by auto
  then show "currentIndex (fold nextTrack (take k rnds) s) =
             (currentIndex s + int k) mod int (length (queue s))"
    using fold_nextTrack_index[OF assms, of "take k rnds"] by simp
qed


lemma nextTrack_track:
  assumes "\<not> shuffleMode s" "repeatMode s = RepeatAll" "queue s \<noteq> []"
  shows "currentTrack (nextTrack rnd s) = at_index (queue s) (currentIndex (nextTrack rnd s))"
  using assms by (simp add: nextTrack_def Let_def)

lemma fold_nextTrack_track:
  assumes "\<not> shuffleMode s" "repeatMode s = RepeatAll" "queue s \<noteq> []" "rnds \<noteq> []"
  shows "currentTrack (fold nextTrack rnds s) =
         at_index (queue s) (currentIndex (fold nextTrack rnds s))"
proof -
  obtain ys y where r: "rnds = ys @ [y]" using assms(4) by (metis rev_exhaust)
  let ?s = "fold nextTrack ys s"
  have k: "queue ?s = queue s" "repeatMode ?s = repeatMode s" "shuffleMode ?s = shuffleMode s"
    using fold_nextTrack_keeps[of ys s] by simp_all
  have "currentTrack (nextTrack y ?s) = at_index (queue ?s) (currentIndex (nextTrack y ?s))"
    using assms k by (intro nextTrack_track) simp_all
  then show ?thesis by (simp add: r k)
qed

text \<open>
  C1: without shuffle, \<open>nextTrack\<close> follows the next-track algorithm. On a
  non-empty queue it moves to \<open>currentIndex + 1\<close> when that is below the queue length;
  otherwise it wraps to position 0 when the repeat mode is "all"; on an empty queue, and at
  the end of the queue with another repeat mode, the whole store is unchanged. Hence, with
  repeat "all" and \<open>currentIndex\<close> a position of a non-empty queue, as many calls as the
  queue is long reach every position exactly once and end at the starting position, with
  the track of that position loaded.
\<close>

theorem nextTrack_sequential:
  "\<not> shuffleMode s \<longrightarrow>
     (queue s \<noteq> [] \<and> currentIndex s + 1 < int (length (queue s)) \<longrightarrow>
        nextTrack rnd s =
          s\<lparr>currentIndex := currentIndex s + 1,
            currentTrack := at_index (queue s) (currentIndex s + 1),
            currentTime := Finite 0\<rparr>) \<and>
     (queue s \<noteq> [] \<and> int (length (queue s)) \<le> currentIndex s + 1 \<and>
      repeatMode s = RepeatAll \<longrightarrow>
        nextTrack rnd s =
          s\<lparr>currentIndex := 0, currentTrack := at_index (queue s) 0,
            currentTime := Finite 0\<rparr>) \<and>
     (queue s = [] \<or>
      int (length (queue s)) \<le> currentIndex s + 1 \<and> repeatMode s \<noteq> RepeatAll \<longrightarrow>
        nextTrack rnd s = s) \<and>
     (repeatMode s = RepeatAll \<and> queue s \<noteq> [] \<and> 0 \<le> currentIndex s \<and>
      currentIndex s < int (length (queue s)) \<and> length rnds = length (queue s) \<longrightarrow>
        distinct (nextTrack_visits rnds s) \<and>
        set (nextTrack_visits rnds s) = {0..<int (length (queue s))} \<and>
        currentIndex (fold nextTrack rnds s) = currentIndex s \<and>
        currentTrack (fold nextTrack rnds s) = at_index (queue s) (currentIndex s))"
proof (intro impI conjI)
  assume "\<not> shuffleMode s"
    and "queue s \<noteq> [] \<and> currentIndex s + 1 < int (length (queue s))"
  then show "nextTrack rnd s =
      s\<lparr>currentIndex := currentIndex s + 1,
        currentTrack := at_index (queue s) (currentIndex s + 1), currentTime := Finite 0\<rparr>"
    by (simp add: nextTrack_def Let_def)
next
  assume "\<not> shuffleMode s"
    and "queue s \<noteq> [] \<and> int (length (queue s)) \<le> currentIndex s + 1 \<and>
         repeatMode s = RepeatAll"
  then show "nextTrack rnd s =
      s\<lparr>currentIndex := 0, currentTrack := at_index (queue s) 0, currentTime := Finite 0\<rparr>"
    by (simp add: nextTrack_def Let_def)
next
  assume "\<not> shuffleMode s"
    and "queue s = [] \<or>
         int (length (queue s)) \<le> currentIndex s + 1 \<and> repeatMode s \<noteq> RepeatAll"
  then show "nextTrack rnd s = s"
    by (auto simp add: nextTrack_def Let_def)
next
  assume sh: "\<not> shuffleMode s"
    and h: "repeatMode s = RepeatAll \<and> queue s \<noteq> [] \<and> 0 \<le> currentIndex s \<and>
            currentIndex s < int (length (queue s)) \<and> length rnds = length (queue s)"
  let ?n = "length (queue s)"
  have v: "nextTrack_visits rnds s = map (\<lambda>k. (currentIndex s + int k) mod int ?n) [1..<Suc ?n]"
    using nextTrack_visits_eq[of s rnds] sh h by simp
  have n: "0 < ?n" using h by simp
  show "distinct (nextTrack_visits rnds s)"
    using cycle_distinct[OF n, of "currentIndex s"] h by (simp only: v)
  show "set (nextTrack_visits rnds s) = {0..<int ?n}"
    using cycle_set[OF n, of "currentIndex s"] h by (simp only: v)
  show i: "currentIndex (fold nextTrack rnds s) = currentIndex s"
    using fold_nextTrack_index[of s rnds] sh h by simp
  have "rnds \<noteq> []" using h by auto
  then show "currentTrack (fold nextTrack rnds s) = at_index (queue s) (currentIndex s)"
    using fold_nextTrack_track[of s rnds] sh h i by simp
qed

theorem nextTrack_sequential_witness:
  "currentIndex (nextTrack 0 (demo_player 1 RepeatAll)) = 2 \<and>
   currentIndex (nextTrack 0 (demo_player 2 RepeatAll)) = 0 \<and>
   nextTrack 0 (demo_player 2 RepeatNone) = demo_player 2 RepeatNone \<and>
   nextTrack 0 ((demo_player 0 RepeatAll)\<lparr>queue := []\<rparr>) = (demo_player 0 RepeatAll)\<lparr>queue := []\<rparr> \<and>
   nextTrack_visits [0, 0, 0] (demo_player 1 RepeatAll) = [2, 0, 1] \<and>
   currentIndex (fold nextTrack [0, 0, 0] (demo_player 1 RepeatAll)) = 1"
  using nextTrack_sequential [of "demo_player 1 RepeatAll" 0 "[0, 0, 0]"]
    nextTrack_sequential [of "demo_player 2 RepeatAll" 0 "[0, 0, 0]"]
    nextTrack_sequential [of "demo_player 2 RepeatNone" 0 "[]"]
    nextTrack_sequential [of "(demo_player 0 RepeatAll)\<lparr>queue := []\<rparr>" 0 "[]"]
  by (simp add: demo_player_def demo_queue_def initial_store_def nextTrack_visits_def nextTrack_def
      at_index_def Let_def)

text \<open>
  C2: without shuffle, \<open>previousTrack\<close> mirrors \<open>nextTrack\<close>. On a non-empty
  queue it moves to \<open>currentIndex - 1\<close> when that is not negative; otherwise it wraps to
  the last position when the repeat mode is "all"; on an empty queue, and at the start of
  the queue with another repeat mode, the whole store is unchanged. With repeat "all" and a
  valid position each of the two undoes the other's move, and on a queue of one track both
  leave the position at 0 with that track loaded.
\<close>

theorem previousTrack_sequential:
  "\<not> shuffleMode s \<longrightarrow>
     (queue s \<noteq> [] \<and> 0 \<le> currentIndex s - 1 \<longrightarrow>
        previousTrack rnd s =
          s\<lparr>currentIndex := currentIndex s - 1,
            currentTrack := at_index (queue s) (currentIndex s - 1),
            currentTime := Finite 0\<rparr>) \<and>
     (queue s \<noteq> [] \<and> currentIndex s - 1 < 0 \<and> repeatMode s = RepeatAll \<longrightarrow>
        previousTrack rnd s =
          s\<lparr>currentIndex := int (length (queue s)) - 1,
            currentTrack := at_index (queue s) (int (length (queue s)) - 1),
            currentTime := Finite 0\<rparr>) \<and>
     (queue s = [] \<or> currentIndex s - 1 < 0 \<and> repeatMode s \<noteq> RepeatAll \<longrightarrow>
        previousTrack rnd s = s) \<and>
     (repeatMode s = RepeatAll \<and> 0 \<le> currentIndex s \<and>
      currentIndex s < int (length (queue s)) \<longrightarrow>
        currentIndex (previousTrack rnd (nextTrack rnd' s)) = currentIndex s \<and>
        currentIndex (nextTrack rnd' (previousTrack rnd s)) = currentIndex s) \<and>
     (length (queue s) = 1 \<and> currentIndex s = 0 \<and> repeatMode s = RepeatAll \<longrightarrow>
        currentIndex (nextTrack rnd' s) = 0 \<and> currentIndex (previousTrack rnd s) = 0 \<and>
        currentTrack (nextTrack rnd' s) = Some (queue s ! 0) \<and>
        currentTrack (previousTrack rnd s) = Some (queue s ! 0))"
  by (auto simp add: previousTrack_def nextTrack_def Let_def at_index_def)

theorem previousTrack_sequential_witness:
  "currentIndex (previousTrack 0 (demo_player 1 RepeatNone)) = 0 \<and>
   currentIndex (previousTrack 0 (demo_player 0 RepeatAll)) = 2 \<and>
   previousTrack 0 (demo_player 0 RepeatNone) = demo_player 0 RepeatNone \<and>
   currentIndex (previousTrack 0 (nextTrack 0 (demo_player 2 RepeatAll))) = 2 \<and>
   currentIndex (nextTrack 0 demo_single) = 0 \<and>
   currentIndex (previousTrack 0 demo_single) = 0"
  using previousTrack_sequential [of "demo_player 1 RepeatNone" 0 0]
    previousTrack_sequential [of "demo_player 0 RepeatAll" 0 0]
    previousTrack_sequential [of "demo_player 0 RepeatNone" 0 0]
    previousTrack_sequential [of "demo_player 2 RepeatAll" 0 0]
    previousTrack_sequential [of demo_single 0 0]
  by (simp add: demo_player_def demo_single_def demo_queue_def initial_store_def
      at_index_def)

section \<open>Clamping setters\<close>

lemma clamp_volume:
  "Math_min (Math_max v (Finite 0)) (Finite 1) =
     (case v of NaN \<Rightarrow> NaN | NegInfinity \<Rightarrow> Finite 0
      | Finite r \<Rightarrow> Finite (min (max r 0) 1) | PosInfinity \<Rightarrow> Finite 1)"
  by (cases v) (auto simp add: Math_min_def Math_max_def)

lemma clamp_rate:
  "Math_min (Math_max v (Finite (1/4))) (Finite 4) =
     (case v of NaN \<Rightarrow> NaN | NegInfinity \<Rightarrow> Finite (1/4)
      | Finite r \<Rightarrow> Finite (min (max r (1/4)) 4) | PosInfinity \<Rightarrow> Finite 4)"
  by (cases v) (auto simp add: Math_min_def Math_max_def)

text \<open>
  C8: \<open>setVolume\<close> stores its input clamped to \<open>[0, 1]\<close> and
  \<open>setPlaybackRate\<close> stores its input clamped to \<open>[0.25, 4]\<close>, and change nothing
  else: a finite input \<open>r\<close> is stored as \<open>min (max r lo) hi\<close>, the infinities as the
  nearer bound, and no input is rejected (NaN, which is not a numeric value, is stored as
  NaN). So 1.5 becomes 1 and -0.2 becomes 0 as volume, 10 becomes 4 and 0.1 becomes 0.25 as
  rate.
\<close>

theorem setVolume_setPlaybackRate_clamp:
  "setVolume v s =
     s\<lparr>volume := (case v of NaN \<Rightarrow> NaN | NegInfinity \<Rightarrow> Finite 0
                   | Finite r \<Rightarrow> Finite (min (max r 0) 1) | PosInfinity \<Rightarrow> Finite 1)\<rparr> \<and>
   setPlaybackRate v s =
     s\<lparr>playbackRate := (case v of NaN \<Rightarrow> NaN | NegInfinity \<Rightarrow> Finite (1/4)
                         | Finite r \<Rightarrow> Finite (min (max r (1/4)) 4)
                         | PosInfinity \<Rightarrow> Finite 4)\<rparr> \<and>
   volume (setVolume (Finite 1.5) s) = Finite 1 \<and>
   volume (setVolume (Finite (- 0.2)) s) = Finite 0 \<and>
   playbackRate (setPlaybackRate (Finite 10) s) = Finite 4 \<and>
   playbackRate (setPlaybackRate (Finite 0.1) s) = Finite 0.25"
  by (simp add: setVolume_def setPlaybackRate_def clamp_volume clamp_rate)

theorem setVolume_setPlaybackRate_clamp_witness:
  "volume (setVolume (Finite 0.4) (initial_store 2024)) = Finite 0.4 \<and>
   volume (setVolume PosInfinity (initial_store 2024)) = Finite 1 \<and>
   playbackRate (setPlaybackRate (Finite 2) (initial_store 2024)) = Finite 2 \<and>
   playbackRate (setPlaybackRate (Finite 0.1) (initial_store 2024)) = Finite 0.25"
  using setVolume_setPlaybackRate_clamp [of "Finite 0.4" "initial_store 2024"]
    setVolume_setPlaybackRate_clamp [of PosInfinity "initial_store 2024"]
    setVolume_setPlaybackRate_clamp [of "Finite 2" "initial_store 2024"]
    setVolume_setPlaybackRate_clamp [of "Finite 0.1" "initial_store 2024"]
  by (simp add: initial_store_def)

section \<open>Transport flags\<close>

lemma action_keeps_exclusive:
  "\<not> (isPlaying s \<and> isPaused s) \<Longrightarrow>
   \<not> (isPlaying (apply_action a s) \<and> isPaused (apply_action a s))"
  by (cases a)
    (simp_all add: setCurrentTrack_def togglePlayPause_def play_def pause_def stop_def
      seek_def setVolume_def setPlaybackRate_def setRepeatMode_def setShuffleMode_def
      nextTrack_def previousTrack_def addToQueue_def removeFromQueue_def clearQueue_def
      setQueue_def setCurrentIndex_def addPlaylist_def updatePlaylist_def deletePlaylist_def
      addTrackToPlaylist_def removeTrackFromPlaylist_def setTracks_def addTrack_def
      updateTrack_def deleteTrack_def setFilterOptions_def resetFilterOptions_def Let_def)

lemma actions_keep_exclusive:
  "\<not> (isPlaying s \<and> isPaused s) \<Longrightarrow>
   \<not> (isPlaying (fold apply_action as s) \<and> isPaused (fold apply_action as s))"
proof (induction as arbitrary: s)
  case Nil
  then show ?case by simp
next
  case (Cons a as)
  from Cons.prems have "\<not> (isPlaying (apply_action a s) \<and> isPaused (apply_action a s))"
    by (rule action_keeps_exclusive)
  then show ?case using Cons.IH by simp
qed

text \<open>
  C9: \<open>isPlaying\<close> and \<open>isPaused\<close> are never both true. Every action of the
  store keeps that from any store where it holds, so it holds after any sequence of actions
  from the initial store; and \<open>stop\<close> clears both flags and sets \<open>currentTime\<close> to 0,
  changing nothing else (in particular neither \<open>currentTrack\<close> nor the queue).
\<close>

theorem playing_paused_exclusive:
  "(\<not> (isPlaying s \<and> isPaused s) \<longrightarrow>
      \<not> (isPlaying (apply_action a s) \<and> isPaused (apply_action a s))) \<and>
   \<not> (isPlaying (fold apply_action as (initial_store y)) \<and>
      isPaused (fold apply_action as (initial_store y))) \<and>
   stop s = s\<lparr>isPlaying := False, isPaused := False, currentTime := Finite 0\<rparr> \<and>
   \<not> isPlaying (stop s) \<and> \<not> isPaused (stop s) \<and> currentTime (stop s) = Finite 0 \<and>
   currentTrack (stop s) = currentTrack s \<and> queue (stop s) = queue s"
proof (intro conjI impI)
  assume "\<not> (isPlaying s \<and> isPaused s)"
  then show "\<not> (isPlaying (apply_action a s) \<and> isPaused (apply_action a s))"
    by (rule action_keeps_exclusive)
next
  have "\<not> (isPlaying (initial_store y) \<and> isPaused (initial_store y))"
    by (simp add: initial_store_def)
  then show "\<not> (isPlaying (fold apply_action as (initial_store y)) \<and>
      isPaused (fold apply_action as (initial_store y)))"
    by (rule actions_keep_exclusive)
qed (simp_all add: stop_def)

theorem playing_paused_exclusive_witness:
  "\<not> (isPlaying (play (initial_store 2024)) \<and> isPaused (play (initial_store 2024))) \<and>
   \<not> (isPlaying (apply_action TogglePlayPause (play (initial_store 2024))) \<and>
      isPaused (apply_action TogglePlayPause (play (initial_store 2024)))) \<and>
   isPaused (apply_action TogglePlayPause (play (initial_store 2024))) \<and>
   \<not> isPlaying (stop (demo_player 1 RepeatAll)) \<and>
   currentTrack (stop (demo_player 1 RepeatAll)) = Some (demo_track ''b'' ''Beta'' ''Bob'')"
  using playing_paused_exclusive [of "play (initial_store 2024)" TogglePlayPause "[]" 2024]
    playing_paused_exclusive [of "demo_player 1 RepeatAll" Stop "[]" 2024]
  by (simp add: play_def togglePlayPause_def stop_def initial_store_def demo_player_def
      demo_queue_def at_index_def)

section \<open>Playlists\<close>

text \<open>
  C10: \<open>addTrackToPlaylist\<close> never appends an id that the playlist already holds:
  the number of playlists is unchanged, every playlist that already contains the id keeps
  its sequence of tracks, and adding the same id a second time changes no sequence of
  tracks.
\<close>

theorem addTrackToPlaylist_idempotent:
  "length (playlists (addTrackToPlaylist pid tid now s)) = length (playlists s) \<and>
   (\<forall>i < length (playlists s).
      Some tid \<in> set (p_tracks (playlists s ! i)) \<longrightarrow>
        p_tracks (playlists (addTrackToPlaylist pid tid now s) ! i) =
          p_tracks (playlists s ! i)) \<and>
   map p_tracks (playlists (addTrackToPlaylist pid tid now' (addTrackToPlaylist pid tid now s))) =
     map p_tracks (playlists (addTrackToPlaylist pid tid now s))"
  by (auto simp add: addTrackToPlaylist_def)

theorem addTrackToPlaylist_idempotent_witness:
  "Some ''a'' \<in> set (p_tracks (playlists demo_library ! 0)) \<and>
   p_tracks (playlists (addTrackToPlaylist ''pl'' ''a'' ''2024-02-02T00:00:00.000Z''
                          demo_library) ! 0) =
     [Some ''a'', Some ''b'', Some ''c'']"
  using addTrackToPlaylist_idempotent
    [of "''pl''" "''a''" "''2024-02-02T00:00:00.000Z''" demo_library]
  by (simp add: demo_library_def demo_playlist_def)

lemma merge_playlist_tracks_only:
  "merge_playlist p (no_playlist_updates\<lparr>pu_tracks := Some ys\<rparr>) now =
     p\<lparr>p_tracks := ys, p_updatedAt := now\<rparr>"
  by (simp add: merge_playlist_def no_playlist_updates_def spread_def)

lemma splice_start_valid:
  "0 \<le> i \<Longrightarrow> i \<le> int n \<Longrightarrow> splice_start i n = nat i"
  by (simp add: splice_start_def)

lemma remove_at_length: "i < length xs \<Longrightarrow> length (remove_at i xs) = length xs - 1"
  by (simp add: remove_at_def)

lemma remove_at_insert:
  "j \<le> length zs \<Longrightarrow> remove_at j (take j zs @ [x] @ drop j zs) = zs"
  by (simp add: remove_at_def)

lemma mset_remove_at:
  "i < length xs \<Longrightarrow> mset (remove_at i xs) + {#xs ! i#} = mset xs"
proof -
  assume i: "i < length xs"
  then have "xs = take i xs @ xs ! i # drop (Suc i) xs" by (simp add: id_take_nth_drop)
  then have "mset xs = mset (take i xs @ xs ! i # drop (Suc i) xs)" by simp
  then show ?thesis by (simp add: remove_at_def)
qed

lemma mset_insert_at:
  "mset (take j zs @ [x] @ drop j zs) = mset zs + {#x#}"
proof -
  have "mset (take j zs @ drop j zs) = mset zs" by simp
  then show ?thesis by (simp del: append_take_drop_id)
qed

text \<open>
  Indices outside the playlist are not rejected. On the playlist \<open>[a, b, c]\<close>, a
  \<open>toIndex\<close> of 3 moves the first track to the end, a \<open>fromIndex\<close> of 3 removes nothing
  and inserts \<open>undefined\<close>, and a \<open>fromIndex\<close> of -1 takes the last track.
\<close>

theorem reorderTracks_out_of_range_counterexample:
  "map p_tracks (playlists demo_library) = [[Some ''a'', Some ''b'', Some ''c'']] \<and>
   map p_tracks (playlists (reorderTracks ''pl'' 0 3 ''2024-02-02T00:00:00.000Z'' demo_library)) =
     [[Some ''b'', Some ''c'', Some ''a'']] \<and>
   map p_tracks (playlists (reorderTracks ''pl'' 3 0 ''2024-02-02T00:00:00.000Z'' demo_library)) =
     [[None, Some ''a'', Some ''b'', Some ''c'']] \<and>
   map p_tracks (playlists (reorderTracks ''pl'' (- 1) 0 ''2024-02-02T00:00:00.000Z'' demo_library)) =
     [[Some ''c'', Some ''a'', Some ''b'']] \<and>
   map p_tracks (playlists (reorderTracks ''pl'' 0 3 ''2024-02-02T00:00:00.000Z'' demo_library)) \<noteq>
     map p_tracks (playlists demo_library)"
  by (simp add: reorderTracks_def updatePlaylist_def merge_playlist_def no_playlist_updates_def
      spread_def splice_start_def demo_library_def demo_playlist_def Let_def)

text \<open>
  C5 (as the code has it): for an existing playlist and two indices that are both
  positions of its track list, \<open>reorderTracks\<close> moves one element: the result has the
  same length and the same elements, the element that was at \<open>fromIndex\<close> is at
  \<open>toIndex\<close>, and the other elements keep their order. Every playlist with that id gets
  the new list and a new \<open>updatedAt\<close>; nothing else in the store changes. Nothing is
  promised for an index outside the list.
\<close>

theorem reorderTracks_valid:
  "find (\<lambda>p. p_id p = pid) (playlists s) = Some pl \<and>
   0 \<le> fromIndex \<and> fromIndex < int (length (p_tracks pl)) \<and>
   0 \<le> toIndex \<and> toIndex < int (length (p_tracks pl)) \<longrightarrow>
     (let xs = p_tracks pl;
          others = remove_at (nat fromIndex) xs;
          ys = take (nat toIndex) others @ [xs ! nat fromIndex] @ drop (nat toIndex) others
      in reorderTracks pid fromIndex toIndex now s =
           s\<lparr>playlists :=
               map (\<lambda>q. if p_id q = pid then q\<lparr>p_tracks := ys, p_updatedAt := now\<rparr> else q)
                 (playlists s)\<rparr> \<and>
         length ys = length xs \<and>
         ys ! nat toIndex = xs ! nat fromIndex \<and>
         remove_at (nat toIndex) ys = others \<and>
         mset ys = mset xs)"
proof (intro impI)
  assume h: "find (\<lambda>p. p_id p = pid) (playlists s) = Some pl \<and>
   0 \<le> fromIndex \<and> fromIndex < int (length (p_tracks pl)) \<and>
   0 \<le> toIndex \<and> toIndex < int (length (p_tracks pl))"
  define xs where "xs = p_tracks pl"
  define f where "f = nat fromIndex"
  define t where "t = nat toIndex"
  define others where "others = remove_at f xs"
  define ys where "ys = take t others @ [xs ! f] @ drop t others"
  have f: "f < length xs" and t: "t < length xs"
    using h by (simp_all add: f_def t_def xs_def nat_less_iff)
  have lo: "length others = length xs - 1"
    using f by (simp add: others_def remove_at_length)
  have tl: "t \<le> length others" using t lo by simp
  have sa: "splice_start fromIndex (length xs) = f"
    using h by (simp add: splice_start_valid f_def xs_def)
  have mv: "(case take 1 (drop f xs) of [] \<Rightarrow> None | x # _ \<Rightarrow> x) = xs ! f"
    using f by (cases "drop f xs") (simp_all add: hd_drop_conv_nth[symmetric] nth_via_drop)
  have o': "take f xs @ drop (f + 1) xs = others"
    by (simp add: others_def remove_at_def)
  have sb: "splice_start toIndex (length others) = t"
    using h tl by (intro splice_start_valid[of toIndex "length others", folded t_def]) (simp_all add: t_def)
  have r: "reorderTracks pid fromIndex toIndex now s =
      s\<lparr>playlists :=
          map (\<lambda>q. if p_id q = pid then q\<lparr>p_tracks := ys, p_updatedAt := now\<rparr> else q)
            (playlists s)\<rparr>"
  proof -
    from h have fd: "find (\<lambda>p. p_id p = pid) (playlists s) = Some pl" by simp
    have "reorderTracks pid fromIndex toIndex now s =
          updatePlaylist pid (no_playlist_updates\<lparr>pu_tracks := Some ys\<rparr>) now s"
      unfolding reorderTracks_def Let_def
      by (simp only: fd option.case xs_def[symmetric] sa mv o' sb ys_def[symmetric])
    then show ?thesis
      by (simp only: updatePlaylist_def merge_playlist_tracks_only)
  qed
  have l: "length ys = length xs" using f tl lo by (simp add: ys_def)
  have n: "ys ! t = xs ! f" using tl by (simp add: ys_def nth_append)
  have ra: "remove_at t ys = others" using tl unfolding ys_def by (rule remove_at_insert)
  have m: "mset ys = mset xs"
    using mset_remove_at[OF f] mset_insert_at[of t others "xs ! f"]
    by (simp add: ys_def others_def)
  show "(let xs = p_tracks pl;
          others = remove_at (nat fromIndex) xs;
          ys = take (nat toIndex) others @ [xs ! nat fromIndex] @ drop (nat toIndex) others
      in reorderTracks pid fromIndex toIndex now s =
           s\<lparr>playlists :=
               map (\<lambda>q. if p_id q = pid then q\<lparr>p_tracks := ys, p_updatedAt := now\<rparr> else q)
                 (playlists s)\<rparr> \<and>
         length ys = length xs \<and>
         ys ! nat toIndex = xs ! nat fromIndex \<and>
         remove_at (nat toIndex) ys = others \<and>
         mset ys = mset xs)"
    unfolding Let_def
    using r l n ra m by (simp add: xs_def f_def t_def others_def ys_def)
qed

theorem reorderTracks_valid_witness:
  "map p_tracks (playlists (reorderTracks ''pl'' 0 2 ''2024-02-02T00:00:00.000Z'' demo_library)) =
     [[Some ''b'', Some ''c'', Some ''a'']] \<and>
   tracks (reorderTracks ''pl'' 0 2 ''2024-02-02T00:00:00.000Z'' demo_library) =
     tracks demo_library"
  using reorderTracks_valid
    [of "''pl''" demo_library demo_playlist 0 2 "''2024-02-02T00:00:00.000Z''"]
  by (simp add: demo_library_def demo_playlist_def remove_at_def Let_def)

section \<open>Export and import\<close>

text \<open>
  C6: a round trip does not bring the tracks back. \<open>importPlaylist\<close> never changes
  the track collection, so on a library of three tracks in one playlist the export holds
  the three titles, and the playlist created by the import lists three new ids of which
  none resolves: its resolved track list is empty.
\<close>

theorem export_import_loses_tracks:
  "tracks (importPlaylist generateId clock playlistData s) = tracks s \<and>
   map_option (\<lambda>snap. map x_title (d_tracks (snap_playlist snap)))
     (exportPlaylist ''pl'' ''2024-03-03T00:00:00.000Z'' demo_library) =
     Some [''Alpha'', ''Beta'', ''Gamma''] \<and>
   map_option
     (\<lambda>snap. let s' = importPlaylist demo_generateId demo_clock (snap_playlist snap)
                        demo_library
             in (map p_id (playlists s'), p_tracks (last (playlists s')),
                 tracks s' = tracks demo_library,
                 map t_title (getPlaylistTracks ''idxxxx'' s')))
     (exportPlaylist ''pl'' ''2024-03-03T00:00:00.000Z'' demo_library) =
     Some ([''pl'', ''idxxxx''], [Some ''idx'', Some ''idxx'', Some ''idxxx''], True, [])"
  by (simp add: exportPlaylist_def getPlaylistById_def getPlaylistTracks_def
      importPlaylist_def createPlaylist_def addPlaylist_def enumerate_eq_zip
      demo_generateId_def demo_clock_def demo_library_def demo_playlist_def demo_queue_def
      demo_track_def initial_store_def Let_def upt_rec)

section \<open>Deleting a track\<close>

text \<open>
  C7: \<open>deleteTrack\<close> leaves every playlist as it was. On the library whose playlist
  is \<open>[a, b, c]\<close>, deleting \<open>a\<close> removes it from the tracks and from the queue and
  clears \<open>currentTrack\<close>, and the playlist still lists \<open>a\<close>.
\<close>

theorem deleteTrack_keeps_playlists:
  "playlists (deleteTrack tid s) = playlists s \<and>
   map t_id (tracks (deleteTrack ''a'' (setQueue demo_queue demo_library))) = [''b'', ''c''] \<and>
   map t_id (queue (deleteTrack ''a'' (setQueue demo_queue demo_library))) = [''b'', ''c''] \<and>
   map_option t_id (currentTrack (setQueue demo_queue demo_library)) = Some ''a'' \<and>
   currentTrack (deleteTrack ''a'' (setQueue demo_queue demo_library)) = None \<and>
   map p_tracks (playlists (deleteTrack ''a'' (setQueue demo_queue demo_library))) =
     [[Some ''a'', Some ''b'', Some ''c'']]"
  by (simp add: deleteTrack_def setQueue_def at_index_def demo_library_def demo_playlist_def
      demo_queue_def demo_track_def initial_store_def)
section \<open>Play count\<close>

text \<open>
  C3: the play count written by the track-change effect is taken from the assigned
  track object, so assigning the same track object again writes the same count again. With
  a stored count of 0, one assignment gives 1, two assignments in sequence give 1, and so
  does the sequence \<open>a\<close>, \<open>b\<close>, \<open>a\<close>. The same happens through the queue: with the
  queue \<open>[a, b]\<close> and repeat "all", the second load of \<open>a\<close> by \<open>nextTrack\<close> takes the
  object held by the queue, and the stored count of \<open>a\<close> is 1 after its two loads.
\<close>

theorem playCount_same_track_twice:
  "tracks (assignCurrentTrack t (assignCurrentTrack t s)) = tracks (assignCurrentTrack t s) \<and>
   storedPlayCount ''a'' demo_library = [Some 0] \<and>
   storedPlayCount ''a'' (assignCurrentTrack (demo_track ''a'' ''Alpha'' ''Ann'') demo_library) =
     [Some 1] \<and>
   storedPlayCount ''a''
     (assignCurrentTrack (demo_track ''a'' ''Alpha'' ''Ann'')
       (assignCurrentTrack (demo_track ''a'' ''Alpha'' ''Ann'') demo_library)) = [Some 1] \<and>
   storedPlayCount ''a''
     (assignCurrentTrack (demo_track ''a'' ''Alpha'' ''Ann'')
       (assignCurrentTrack (demo_track ''b'' ''Beta'' ''Bob'')
         (assignCurrentTrack (demo_track ''a'' ''Alpha'' ''Ann'') demo_library))) = [Some 1] \<and>
   map_option t_id (currentTrack
     (trackChangeEffect (nextTrack 0 (trackChangeEffect (nextTrack 0
        (trackChangeEffect (setQueue [demo_track ''a'' ''Alpha'' ''Ann'',
                                      demo_track ''b'' ''Beta'' ''Bob'']
           (setRepeatMode RepeatAll demo_library)))))))) = Some ''a'' \<and>
   storedPlayCount ''a''
     (trackChangeEffect (nextTrack 0 (trackChangeEffect (nextTrack 0
        (trackChangeEffect (setQueue [demo_track ''a'' ''Alpha'' ''Ann'',
                                      demo_track ''b'' ''Beta'' ''Bob'']
           (setRepeatMode RepeatAll demo_library))))))) = [Some 1]"
  by (simp add: storedPlayCount_def assignCurrentTrack_def trackChangeEffect_def
      setCurrentTrack_def nextTrack_def setQueue_def setRepeatMode_def at_index_def
      updateTrack_def merge_track_def no_track_updates_def spread_def
      demo_library_def demo_queue_def demo_track_def initial_store_def Let_def)

section \<open>Persisted subset\<close>

text \<open>
  Two stores that differ in \<open>playbackRate\<close> only are persisted as the same record: a
  rate of 2 is not written to storage.
\<close>

theorem partialize_playbackRate_counterexample:
  "partialize (setPlaybackRate (Finite 2) (initial_store 2024)) =
     partialize (initial_store 2024) \<and>
   playbackRate (setPlaybackRate (Finite 2) (initial_store 2024)) = Finite 2 \<and>
   playbackRate (initial_store 2024) = Finite 1"
  by (simp add: partialize_def setPlaybackRate_def initial_store_def Math_min_def Math_max_def)

text \<open>
  C4 (as the code has it): the persisted record is determined by exactly six fields of
  the store, \<open>volume\<close>, \<open>repeatMode\<close>, \<open>shuffleMode\<close>, \<open>playlists\<close>, \<open>tracks\<close> and
  \<open>filterOptions\<close>. Changing any of the other fields, \<open>playbackRate\<close>,
  \<open>currentTime\<close> and \<open>currentTrack\<close> among them, does not change what is persisted.
\<close>

theorem partialize_fields:
  "(partialize s = partialize s') =
     (volume s = volume s' \<and> repeatMode s = repeatMode s' \<and> shuffleMode s = shuffleMode s' \<and>
      playlists s = playlists s' \<and> tracks s = tracks s' \<and>
      filterOptions s = filterOptions s') \<and>
   partialize (s\<lparr>currentTrack := ct, isPlaying := a, isPaused := b, currentTime := t,
                 duration := d, playbackRate := r, queue := q, currentIndex := i\<rparr>) =
     partialize s"
  by (auto simp add: partialize_def)

theorem partialize_fields_witness:
  "partialize (setVolume (Finite 0.5) (initial_store 2024)) \<noteq> partialize (initial_store 2024) \<and>
   partialize (seek (Finite 42) (setPlaybackRate (Finite 2) (initial_store 2024))) =
     partialize (initial_store 2024)"
  using partialize_fields [of "setVolume (Finite 0.5) (initial_store 2024)" "initial_store 2024"]
    partialize_fields [of "seek (Finite 42) (setPlaybackRate (Finite 2) (initial_store 2024))"
      "initial_store 2024"]
  by (simp add: setVolume_def setPlaybackRate_def seek_def initial_store_def Math_min_def
      Math_max_def)

end
